theory Spec2Isabelle
  imports Main "HOL-Library.Word" "HOL-Library.AList"
begin

unbundle bit_operations_syntax

section \<open>The constants of bootutil\_public.h\<close>

text \<open>
  The swap types, magic states and flag states are the values held in the
  \<open>uint8_t\<close> fields of \<open>struct boot_swap_state\<close>; they are bytes here. The
  status codes are the plain \<open>int\<close> values the API functions return.
\<close>

type_synonym uint8_t = "8 word"

definition BOOT_SWAP_TYPE_NONE :: uint8_t where "BOOT_SWAP_TYPE_NONE = 1"
definition BOOT_SWAP_TYPE_TEST :: uint8_t where "BOOT_SWAP_TYPE_TEST = 2"
definition BOOT_SWAP_TYPE_PERM :: uint8_t where "BOOT_SWAP_TYPE_PERM = 3"
definition BOOT_SWAP_TYPE_REVERT :: uint8_t where "BOOT_SWAP_TYPE_REVERT = 4"
definition BOOT_SWAP_TYPE_FAIL :: uint8_t where "BOOT_SWAP_TYPE_FAIL = 5"
definition BOOT_SWAP_TYPE_PANIC :: uint8_t where "BOOT_SWAP_TYPE_PANIC = 0xff"

definition BOOT_MAGIC_SZ :: nat where "BOOT_MAGIC_SZ = 16"

text \<open>The branch of the header taken when \<open>MCUBOOT_BOOT_MAX_ALIGN\<close> is not defined.\<close>

definition BOOT_MAX_ALIGN :: nat where "BOOT_MAX_ALIGN = 8"

definition BOOT_MAGIC_GOOD :: uint8_t where "BOOT_MAGIC_GOOD = 1"
definition BOOT_MAGIC_BAD :: uint8_t where "BOOT_MAGIC_BAD = 2"
definition BOOT_MAGIC_UNSET :: uint8_t where "BOOT_MAGIC_UNSET = 3"
definition BOOT_MAGIC_ANY :: uint8_t where "BOOT_MAGIC_ANY = 4"
definition BOOT_MAGIC_NOTGOOD :: uint8_t where "BOOT_MAGIC_NOTGOOD = 5"

definition BOOT_FLAG_SET :: uint8_t where "BOOT_FLAG_SET = 1"
definition BOOT_FLAG_BAD :: uint8_t where "BOOT_FLAG_BAD = 2"
definition BOOT_FLAG_UNSET :: uint8_t where "BOOT_FLAG_UNSET = 3"
definition BOOT_FLAG_ANY :: uint8_t where "BOOT_FLAG_ANY = 4"

definition BOOT_EFLASH :: int where "BOOT_EFLASH = 1"
definition BOOT_EFILE :: int where "BOOT_EFILE = 2"
definition BOOT_EBADIMAGE :: int where "BOOT_EBADIMAGE = 3"
definition BOOT_EBADVECT :: int where "BOOT_EBADVECT = 4"
definition BOOT_EBADSTATUS :: int where "BOOT_EBADSTATUS = 5"
definition BOOT_ENOMEM :: int where "BOOT_ENOMEM = 6"
definition BOOT_EBADARGS :: int where "BOOT_EBADARGS = 7"
definition BOOT_EBADVERSION :: int where "BOOT_EBADVERSION = 8"
definition BOOT_EFLASH_SEC :: int where "BOOT_EFLASH_SEC = 9"

text \<open>The nine status codes in the order of the header, and the six swap types.\<close>

definition boot_error_codes :: "int list" where
  "boot_error_codes =
     [BOOT_EFLASH, BOOT_EFILE, BOOT_EBADIMAGE, BOOT_EBADVECT, BOOT_EBADSTATUS,
      BOOT_ENOMEM, BOOT_EBADARGS, BOOT_EBADVERSION, BOOT_EFLASH_SEC]"

definition boot_swap_types :: "uint8_t list" where
  "boot_swap_types =
     [BOOT_SWAP_TYPE_NONE, BOOT_SWAP_TYPE_TEST, BOOT_SWAP_TYPE_PERM,
      BOOT_SWAP_TYPE_REVERT, BOOT_SWAP_TYPE_FAIL, BOOT_SWAP_TYPE_PANIC]"

section \<open>The swap\_info macros\<close>

text \<open>
  \<open>BOOT_GET_SWAP_TYPE(swap_info)\<close> is \<open>((swap_info) & 0x0F)\<close> and
  \<open>BOOT_GET_IMAGE_NUM(swap_info)\<close> is \<open>((swap_info) >> 4)\<close>. The operand is a
  byte; C promotes it to \<open>int\<close>, and both results lie in 0..15, so they are
  given as bytes again (the type of the fields they are stored in).
\<close>

definition BOOT_GET_SWAP_TYPE :: "uint8_t \<Rightarrow> uint8_t" where
  "BOOT_GET_SWAP_TYPE swap_info =
     ucast ((ucast swap_info :: 32 word) AND 0x0F)"

definition BOOT_GET_IMAGE_NUM :: "uint8_t \<Rightarrow> uint8_t" where
  "BOOT_GET_IMAGE_NUM swap_info =
     ucast (drop_bit 4 (ucast swap_info :: 32 word))"

text \<open>
  \<open>BOOT_SET_SWAP_INFO(swap_info, image, type)\<close> is a block of two assertions
  and one assignment. Assertions are taken as enabled: a failing \<open>assert\<close>
  aborts, which is the result \<open>None\<close>. The operands are bytes (an image number
  and a swap type as \<open>struct boot_swap_state\<close> holds them), promoted to \<open>int\<close>
  for the shift and the bitwise or; the value is then stored in the one-byte
  \<open>swap_info\<close>, which is the result \<open>Some\<close>.
\<close>

definition BOOT_SET_SWAP_INFO :: "uint8_t \<Rightarrow> uint8_t \<Rightarrow> uint8_t option" where
  "BOOT_SET_SWAP_INFO img ty =
     (if img < 0xF then
        (if ty < 0xF then
           Some (ucast (push_bit 4 (ucast img :: 32 word) OR (ucast ty :: 32 word)))
         else None)
      else None)"

section \<open>The swap state\<close>

text \<open>\<open>struct boot_swap_state\<close>, field by field.\<close>

record boot_swap_state =
  magic :: uint8_t
  swap_type :: uint8_t
  copy_done :: uint8_t
  image_ok :: uint8_t
  image_num :: uint8_t

section \<open>Flash areas and the trailer reader\<close>

text \<open>
  Modelled from the spec: \<open>struct flash_area\<close> and the flash driver belong to
  \<open>flash_map_backend.h\<close>, which the header includes and which is not at hand.
  Of the 16 magic bytes of a trailer only what the decoder tells apart is
  kept: the sentinel, all bytes erased, anything else.
\<close>

datatype magic_bytes = Magic_Sentinel | Magic_Erased | Magic_Other

text \<open>
  Modelled from the spec: a slot is "a contiguous, erasable region of
  persistent storage holding one firmware image plus trailer metadata"; the
  trailer holds the magic, the packed \<open>swap_info\<close> byte and the two flag bytes
  \<open>copy_done\<close> and \<open>image_ok\<close>. \<open>fa_io_ok\<close> says whether the driver's calls on
  the area succeed, \<open>fa_header_ok\<close> is the verdict of the header sanity check
  on the slot, \<open>fa_progress\<close> is the progress marker of the trailer region,
  \<open>fa_sectors\<close> is the image, sector by sector, and \<open>fa_writes\<close> counts the
  program and erase operations performed on the area.
\<close>

record flash_area =
  fa_size :: nat
  fa_trailer_off :: nat
  fa_erased_val :: uint8_t
  fa_io_ok :: bool
  fa_header_ok :: bool
  fa_magic :: magic_bytes
  fa_swap_info :: uint8_t
  fa_copy_done :: uint8_t
  fa_image_ok :: uint8_t
  fa_progress :: nat
  fa_sectors :: "uint8_t list list"
  fa_writes :: nat

text \<open>
  Modelled from the spec: the image validator is an external collaborator,
  which "the engine calls before trusting a slot". It is a verdict on the
  content of a slot.
\<close>

type_synonym image_validator = "uint8_t list list \<Rightarrow> bool"

text \<open>
  Modelled from the spec: the magic is "decoded to one of: Good (correct
  sentinel bytes), Bad (wrong but non-blank bytes), Unset (all-erased)".
\<close>

fun boot_magic_decode :: "magic_bytes \<Rightarrow> uint8_t" where
  "boot_magic_decode Magic_Sentinel = BOOT_MAGIC_GOOD"
| "boot_magic_decode Magic_Erased = BOOT_MAGIC_UNSET"
| "boot_magic_decode Magic_Other = BOOT_MAGIC_BAD"

text \<open>
  Modelled from the spec: a flag byte is Set, Bad or Unset; "malformed fields
  decode to Bad rather than failing". The erased byte is Unset, the byte
  \<open>BOOT_FLAG_SET\<close> ("this is written to flash") is Set.
\<close>

definition boot_flag_decode :: "uint8_t \<Rightarrow> uint8_t \<Rightarrow> uint8_t" where
  "boot_flag_decode erased b =
     (if b = erased then BOOT_FLAG_UNSET
      else if b = BOOT_FLAG_SET then BOOT_FLAG_SET
      else BOOT_FLAG_BAD)"

text \<open>
  Modelled from the spec: \<open>boot_read_swap_state\<close> is declared in the header,
  its body is not at hand. It returns the decoded trailer, or the error of the
  flash read ("0 on success; non-zero error code on failure"); the swap type
  and the image number are taken out of \<open>swap_info\<close> with the two macros.
\<close>

definition boot_read_swap_state :: "flash_area \<Rightarrow> int + boot_swap_state" where
  "boot_read_swap_state fa =
     (if fa_io_ok fa then
        Inr \<lparr>magic = boot_magic_decode (fa_magic fa),
             swap_type = BOOT_GET_SWAP_TYPE (fa_swap_info fa),
             copy_done = boot_flag_decode (fa_erased_val fa) (fa_copy_done fa),
             image_ok = boot_flag_decode (fa_erased_val fa) (fa_image_ok fa),
             image_num = BOOT_GET_IMAGE_NUM (fa_swap_info fa)\<rparr>
      else Inl BOOT_EFLASH)"

text \<open>
  Modelled from the spec: the reader of section 4.1, "read(slot) -> Trailer |
  NotPresent", which "returns NotPresent if magic is Unset or the slot is
  smaller than one alignment unit past the trailer offset". NotPresent is
  \<open>None\<close>.
\<close>

definition read_trailer :: "flash_area \<Rightarrow> int + boot_swap_state option" where
  "read_trailer fa =
     (if fa_size fa < fa_trailer_off fa + BOOT_MAX_ALIGN then Inr None
      else (case boot_read_swap_state fa of
              Inl rc \<Rightarrow> Inl rc
            | Inr st \<Rightarrow> if magic st = BOOT_MAGIC_UNSET then Inr None else Inr (Some st)))"

section \<open>The decision engine\<close>

text \<open>
  Modelled from the spec: \<open>boot_swap_type_multi\<close> is declared in the header,
  its body is not at hand. The rules are those of the decision table of
  section 4.2, one predicate each, on the primary and the secondary trailer as
  the reader returns them. Rule 1: "No secondary trailer, or secondary magic
  not Good and swap_info None".
\<close>

definition rule1 :: "boot_swap_state option \<Rightarrow> bool" where
  "rule1 s =
     (case s of
        None \<Rightarrow> True
      | Some t \<Rightarrow> magic t \<noteq> BOOT_MAGIC_GOOD \<and> swap_type t = BOOT_SWAP_TYPE_NONE)"

text \<open>
  Modelled from the spec: rule 2 of the decision table, "Secondary has Good
  magic, swap_info = Test or Permanent, primary copy_done \<noteq> Set", for the
  requested type \<open>ty\<close>. A primary without trailer has no \<open>copy_done\<close> that is
  Set.
\<close>

definition rule2 :: "boot_swap_state option \<Rightarrow> boot_swap_state option \<Rightarrow> uint8_t \<Rightarrow> bool" where
  "rule2 p s ty =
     (case s of
        None \<Rightarrow> False
      | Some t \<Rightarrow>
          magic t = BOOT_MAGIC_GOOD \<and> swap_type t = ty \<and>
          (case p of None \<Rightarrow> True | Some q \<Rightarrow> copy_done q \<noteq> BOOT_FLAG_SET))"

text \<open>
  Modelled from the spec: rule 3 of the decision table, "Primary has Good
  magic, swap_info = Test, image_ok \<noteq> Set".
\<close>

definition rule3 :: "boot_swap_state option \<Rightarrow> bool" where
  "rule3 p =
     (case p of
        None \<Rightarrow> False
      | Some q \<Rightarrow>
          magic q = BOOT_MAGIC_GOOD \<and> swap_type q = BOOT_SWAP_TYPE_TEST \<and>
          image_ok q \<noteq> BOOT_FLAG_SET)"

text \<open>
  Modelled from the spec: rule 4 of the decision table, "Primary has Good
  magic, swap_info = Test or Permanent, copy_done = Set, image_ok = Set".
\<close>

definition rule4 :: "boot_swap_state option \<Rightarrow> bool" where
  "rule4 p =
     (case p of
        None \<Rightarrow> False
      | Some q \<Rightarrow>
          magic q = BOOT_MAGIC_GOOD \<and>
          (swap_type q = BOOT_SWAP_TYPE_TEST \<or> swap_type q = BOOT_SWAP_TYPE_PERM) \<and>
          copy_done q = BOOT_FLAG_SET \<and> image_ok q = BOOT_FLAG_SET)"

text \<open>
  Modelled from the spec: rule 5 of the decision table, "Any field decodes to
  an internally inconsistent combination impossible under the above rules",
  which section 7 describes as "a combination the Decision Engine cannot map
  to a known transition".
\<close>

definition rule5 :: "boot_swap_state option \<Rightarrow> boot_swap_state option \<Rightarrow> bool" where
  "rule5 p s =
     (\<not> (rule1 s \<or> rule2 p s BOOT_SWAP_TYPE_TEST \<or> rule2 p s BOOT_SWAP_TYPE_PERM \<or>
         rule3 p \<or> rule4 p))"

text \<open>
  Modelled from the spec: rules 1 to 5 of the decision table of section 4.2,
  "evaluated in this precedence order; first match wins". Rule 2 answers with
  the requested type, so it has one row for Test and one for Permanent.
\<close>

definition decision_table ::
  "boot_swap_state option \<Rightarrow> boot_swap_state option \<Rightarrow> (bool \<times> uint8_t) list" where
  "decision_table p s =
     [(rule1 s, BOOT_SWAP_TYPE_NONE),
      (rule2 p s BOOT_SWAP_TYPE_TEST, BOOT_SWAP_TYPE_TEST),
      (rule2 p s BOOT_SWAP_TYPE_PERM, BOOT_SWAP_TYPE_PERM),
      (rule3 p, BOOT_SWAP_TYPE_REVERT),
      (rule4 p, BOOT_SWAP_TYPE_NONE),
      (rule5 p s, BOOT_SWAP_TYPE_PANIC)]"

text \<open>The first row of a table whose guard holds.\<close>

fun first_match :: "(bool \<times> 'a) list \<Rightarrow> 'a option" where
  "first_match [] = None"
| "first_match ((g, a) # rows) = (if g then Some a else first_match rows)"

text \<open>
  Modelled from the spec: what the trailers say, the answer of the first row
  that matches. A pair that no row maps to a transition is a metadata
  inconsistency, which section 7 resolves to Panic.
\<close>

definition table_answer :: "boot_swap_state option \<Rightarrow> boot_swap_state option \<Rightarrow> uint8_t" where
  "table_answer p s =
     (case first_match (decision_table p s) of
        Some a \<Rightarrow> a
      | None \<Rightarrow> BOOT_SWAP_TYPE_PANIC)"

text \<open>
  Modelled from the spec: the decision engine. Rule 6, "Chosen image fails the
  external image-validator", with the answer Fail, speaks of an image that
  has been chosen, and the header says of \<open>BOOT_SWAP_TYPE_FAIL\<close>: "Swap failed
  because image to be run is not valid". So it is applied to the swaps that
  rules 2 and 3 answer with, Test, Permanent and Revert, which bring in the
  image of the secondary slot; \<open>valid\<close> is the verdict of the validator on that
  image. None and Panic stay, the spec recommending "metadata-inconsistency
  checked first".
\<close>

definition swap_decision ::
  "boot_swap_state option \<Rightarrow> boot_swap_state option \<Rightarrow> bool \<Rightarrow> uint8_t" where
  "swap_decision p s valid =
     (let a = table_answer p s in
      if (a = BOOT_SWAP_TYPE_TEST \<or> a = BOOT_SWAP_TYPE_PERM \<or> a = BOOT_SWAP_TYPE_REVERT) \<and>
         \<not> valid
      then BOOT_SWAP_TYPE_FAIL
      else a)"

text \<open>
  Modelled from the spec: \<open>struct boot_loader_state\<close> is only declared in the
  header. What the engine needs of it is the flash map, the primary and the
  secondary slot of every image pair index, and the image validator it
  calls.
\<close>

record boot_loader_state =
  bs_slots :: "(int \<times> flash_area \<times> flash_area) list"
  bs_validator :: image_validator

text \<open>
  Modelled from the spec: "swap_type(image_index) -> SwapAction | error". An
  unknown image index is rejected as a bad argument, a failing flash read is
  passed on, and otherwise the decision falls on the two trailers read and on
  the verdict of the validator on the image of the secondary slot.
\<close>

definition boot_swap_type_multi :: "boot_loader_state \<Rightarrow> int \<Rightarrow> int + uint8_t" where
  "boot_swap_type_multi st image_index =
     (case map_of (bs_slots st) image_index of
        None \<Rightarrow> Inl BOOT_EBADARGS
      | Some (pri, sec) \<Rightarrow>
          (case read_trailer pri of
             Inl rc \<Rightarrow> Inl rc
           | Inr p \<Rightarrow>
               (case read_trailer sec of
                  Inl rc \<Rightarrow> Inl rc
                | Inr s \<Rightarrow>
                    Inr (swap_decision p s (bs_validator st (fa_sectors sec))))))"

text \<open>
  Modelled from the spec: \<open>boot_swap_type\<close> is declared in the header, its
  body is not at hand; the header's comment says that it "Works the same as a
  boot_swap_type_multi(0) call".
\<close>

definition boot_swap_type :: "boot_loader_state \<Rightarrow> int + uint8_t" where
  "boot_swap_type st = boot_swap_type_multi st 0"

section \<open>The pending-request API\<close>

text \<open>
  Modelled from the spec: the flash driver's write, "write(offset,bytes)". A
  failing write is a storage fault, "always fatal to the current operation
  and surfaced"; a write that succeeds is counted.
\<close>

definition flash_write :: "(flash_area \<Rightarrow> flash_area) \<Rightarrow> flash_area \<Rightarrow> int \<times> flash_area" where
  "flash_write upd fa =
     (if fa_io_ok fa then (0, (upd fa)\<lparr>fa_writes := Suc (fa_writes fa)\<rparr>)
      else (BOOT_EFLASH, fa))"

text \<open>
  Modelled from the spec: the writes of the single trailer fields, each one
  driver write.
\<close>

definition boot_write_magic :: "flash_area \<Rightarrow> int \<times> flash_area" where
  "boot_write_magic fa = flash_write (\<lambda>a. a\<lparr>fa_magic := Magic_Sentinel\<rparr>) fa"

definition boot_write_image_ok :: "flash_area \<Rightarrow> int \<times> flash_area" where
  "boot_write_image_ok fa = flash_write (\<lambda>a. a\<lparr>fa_image_ok := BOOT_FLAG_SET\<rparr>) fa"

definition boot_write_copy_done :: "flash_area \<Rightarrow> int \<times> flash_area" where
  "boot_write_copy_done fa = flash_write (\<lambda>a. a\<lparr>fa_copy_done := BOOT_FLAG_SET\<rparr>) fa"

text \<open>
  Modelled from the spec: the write of \<open>swap_info\<close>. The byte is packed with
  \<open>BOOT_SET_SWAP_INFO\<close>; operands the macro does not accept are rejected as
  bad arguments before any write.
\<close>

definition boot_write_swap_info :: "flash_area \<Rightarrow> uint8_t \<Rightarrow> uint8_t \<Rightarrow> int \<times> flash_area" where
  "boot_write_swap_info fa ty img =
     (case BOOT_SET_SWAP_INFO img ty of
        None \<Rightarrow> (BOOT_EBADARGS, fa)
      | Some b \<Rightarrow> flash_write (\<lambda>a. a\<lparr>fa_swap_info := b\<rparr>) fa)"

text \<open>
  Modelled from the spec: confirming "writes image_ok = Set" and "calling it
  when already Set is a successful no-op". A flag that is Bad makes the
  existing trailer inconsistent, which is an error.
\<close>

definition confirm_trailer :: "flash_area \<Rightarrow> boot_swap_state \<Rightarrow> int \<times> flash_area" where
  "confirm_trailer fa st =
     (if image_ok st = BOOT_FLAG_SET then (0, fa)
      else if image_ok st = BOOT_FLAG_BAD then (BOOT_EBADSTATUS, fa)
      else boot_write_image_ok fa)"

text \<open>
  Modelled from the spec: marking a slot pending "requires the secondary slot
  to already contain a structurally valid (header-sane) image", an invalid
  one "is rejected before any write", and it "writes swap_info = Test or
  Permanent"; the request creates the trailer when the slot has none.
\<close>

definition pend_trailer :: "flash_area \<Rightarrow> boot_swap_state \<Rightarrow> bool \<Rightarrow> int \<times> flash_area" where
  "pend_trailer fa st permanent =
     (if \<not> fa_header_ok fa then (BOOT_EBADIMAGE, fa)
      else
        (case (if magic st = BOOT_MAGIC_UNSET then boot_write_magic fa else (0, fa)) of
           (rc, fa1) \<Rightarrow>
             if rc \<noteq> 0 then (rc, fa1)
             else boot_write_swap_info fa1
                    (if permanent then BOOT_SWAP_TYPE_PERM else BOOT_SWAP_TYPE_TEST) 0))"

text \<open>
  Modelled from the spec: \<open>boot_set_next\<close> is declared in the header, its body
  is not at hand. The header's comment says of \<open>confirm\<close> that "when active is
  true, this is considered true, regardless of passed value"; the slot that is
  running is confirmed, any other slot is marked pending, for good when
  \<open>confirm\<close> is set. The failures are "the underlying storage write failing or
  the target slot's existing trailer being Bad/inconsistent", and the magic
  "must be Good before swap_info, copy_done, or image_ok are considered
  meaningful", so it is looked at first.
\<close>

definition boot_set_next :: "flash_area \<Rightarrow> bool \<Rightarrow> bool \<Rightarrow> int \<times> flash_area" where
  "boot_set_next fa active confirm =
     (let confirm = (if active then True else confirm) in
      case boot_read_swap_state fa of
        Inl rc \<Rightarrow> (rc, fa)
      | Inr st \<Rightarrow>
          if magic st = BOOT_MAGIC_BAD then (BOOT_EBADSTATUS, fa)
          else if active then (if confirm then confirm_trailer fa st else (0, fa))
          else pend_trailer fa st confirm)"

text \<open>
  Modelled from the spec: "set_pending(image_index, permanent)" acts on the
  secondary slot of the pair and "set_confirmed(image_index)" on the primary
  one; an unknown image index is caller misuse, "rejected synchronously
  before any storage mutation".
\<close>

definition boot_set_pending_multi ::
  "boot_loader_state \<Rightarrow> int \<Rightarrow> int \<Rightarrow> int \<times> boot_loader_state" where
  "boot_set_pending_multi st image_index permanent =
     (case map_of (bs_slots st) image_index of
        None \<Rightarrow> (BOOT_EBADARGS, st)
      | Some (pri, sec) \<Rightarrow>
          (case boot_set_next sec False (permanent \<noteq> 0) of
             (rc, sec') \<Rightarrow>
               (rc, st\<lparr>bs_slots := AList.update image_index (pri, sec') (bs_slots st)\<rparr>)))"

text \<open>
  Modelled from the spec: \<open>boot_set_pending\<close> is, by the header's comment, the
  request for the image "with index 0".
\<close>

definition boot_set_pending :: "boot_loader_state \<Rightarrow> int \<Rightarrow> int \<times> boot_loader_state" where
  "boot_set_pending st permanent = boot_set_pending_multi st 0 permanent"

text \<open>
  Modelled from the spec: "set_confirmed(image_index): writes image_ok = Set
  on the primary trailer"; the primary slot is the one that is running.
\<close>

definition boot_set_confirmed_multi ::
  "boot_loader_state \<Rightarrow> int \<Rightarrow> int \<times> boot_loader_state" where
  "boot_set_confirmed_multi st image_index =
     (case map_of (bs_slots st) image_index of
        None \<Rightarrow> (BOOT_EBADARGS, st)
      | Some (pri, sec) \<Rightarrow>
          (case boot_set_next pri True True of
             (rc, pri') \<Rightarrow>
               (rc, st\<lparr>bs_slots := AList.update image_index (pri', sec) (bs_slots st)\<rparr>)))"

text \<open>
  Modelled from the spec: \<open>boot_set_confirmed\<close> is, by the header's comment,
  the confirmation of the image "with index 0".
\<close>

definition boot_set_confirmed :: "boot_loader_state \<Rightarrow> int \<times> boot_loader_state" where
  "boot_set_confirmed st = boot_set_confirmed_multi st 0"

section \<open>The swap executor\<close>

text \<open>
  Modelled from the spec: the executor is not at hand. This is the
  scratch-based strategy of section 4.3 on the two slots of a pair and one
  scratch sector.
\<close>

record swap_areas =
  sw_primary :: flash_area
  sw_secondary :: flash_area
  sw_scratch :: flash_area

text \<open>
  Modelled from the spec: one sector copy. Sector \<open>i\<close> of \<open>src\<close> is read and
  written to sector \<open>j\<close> of \<open>dst\<close>. A read or write the driver refuses is a
  storage fault, "not retried by this layer".
\<close>

definition copy_sector :: "flash_area \<Rightarrow> nat \<Rightarrow> flash_area \<Rightarrow> nat \<Rightarrow> int \<times> flash_area" where
  "copy_sector src i dst j =
     (if fa_io_ok src \<and> i < length (fa_sectors src) \<and> j < length (fa_sectors dst) then
        flash_write (\<lambda>a. a\<lparr>fa_sectors := (fa_sectors a)[j := fa_sectors src ! i]\<rparr>) dst
      else (BOOT_EFLASH, dst))"

text \<open>
  Modelled from the spec: one sector triple, "copy primary sector N into
  scratch, copy secondary sector N into primary's now-empty sector, copy
  scratch into secondary's sector. After each full sector triple, write a
  progress marker".
\<close>

definition swap_sector :: "nat \<Rightarrow> swap_areas \<Rightarrow> int \<times> swap_areas" where
  "swap_sector n sw =
     (case copy_sector (sw_primary sw) n (sw_scratch sw) 0 of
        (rc1, scr) \<Rightarrow>
          if rc1 \<noteq> 0 then (rc1, sw)
          else
            (case copy_sector (sw_secondary sw) n (sw_primary sw) n of
               (rc2, pri) \<Rightarrow>
                 if rc2 \<noteq> 0 then (rc2, sw\<lparr>sw_scratch := scr\<rparr>)
                 else
                   (case copy_sector scr 0 (sw_secondary sw) n of
                      (rc3, sec) \<Rightarrow>
                        if rc3 \<noteq> 0 then (rc3, sw\<lparr>sw_primary := pri, sw_scratch := scr\<rparr>)
                        else
                          (case flash_write (\<lambda>a. a\<lparr>fa_progress := Suc n\<rparr>) pri of
                             (rc4, pri') \<Rightarrow>
                               (rc4, \<lparr>sw_primary = pri', sw_secondary = sec,
                                      sw_scratch = scr\<rparr>)))))"

text \<open>
  Modelled from the spec: the sector triples in turn; a storage fault ends the
  run and is passed to the caller.
\<close>

fun swap_sectors :: "nat list \<Rightarrow> swap_areas \<Rightarrow> int \<times> swap_areas" where
  "swap_sectors [] sw = (0, sw)"
| "swap_sectors (n # ns) sw =
     (case swap_sector n sw of
        (rc, sw1) \<Rightarrow> if rc \<noteq> 0 then (rc, sw1) else swap_sectors ns sw1)"

text \<open>
  Modelled from the spec: the end of a swap. The executor writes the trailer of
  the primary slot, its magic and the swap type, and leaves the "primary
  trailer {swap_type=..., copy_done=Set}" and the "secondary trailer magic
  erased"; \<open>copy_done\<close> is written last, "only after every sector has been
  moved".
\<close>

definition swap_finish :: "uint8_t \<Rightarrow> swap_areas \<Rightarrow> int \<times> swap_areas" where
  "swap_finish action sw =
     (case boot_write_magic (sw_primary sw) of
        (rc0, pri0) \<Rightarrow>
          if rc0 \<noteq> 0 then (rc0, sw)
          else
            (case boot_write_swap_info pri0 action 0 of
               (rc1, pri1) \<Rightarrow>
                 if rc1 \<noteq> 0 then (rc1, sw\<lparr>sw_primary := pri0\<rparr>)
                 else
                   (case flash_write (\<lambda>a. a\<lparr>fa_magic := Magic_Erased\<rparr>) (sw_secondary sw) of
                      (rc2, sec) \<Rightarrow>
                        if rc2 \<noteq> 0 then (rc2, sw\<lparr>sw_primary := pri1\<rparr>)
                        else
                          (case boot_write_copy_done pri1 of
                             (rc3, pri2) \<Rightarrow>
                               (rc3, sw\<lparr>sw_primary := pri2, sw_secondary := sec\<rparr>)))))"

text \<open>
  Modelled from the spec: the swap executor. A swap that has completed is
  "detected via copy_done = Set" and is then a no-op; a "chosen image that
  fails the external validator before any bytes are moved aborts with Fail and
  performs no flash mutation", the image to bring in being that of the
  secondary slot; otherwise the copy resumes at the progress marker "rather
  than restarting from sector 0".
\<close>

definition swap_executor :: "image_validator \<Rightarrow> uint8_t \<Rightarrow> swap_areas \<Rightarrow> int \<times> swap_areas" where
  "swap_executor validator action sw =
     (case boot_read_swap_state (sw_primary sw) of
        Inl rc \<Rightarrow> (rc, sw)
      | Inr st \<Rightarrow>
          if copy_done st = BOOT_FLAG_SET then (0, sw)
          else if \<not> validator (fa_sectors (sw_secondary sw)) then (BOOT_EBADIMAGE, sw)
          else
            (case swap_sectors
                    [fa_progress (sw_primary sw) ..< length (fa_sectors (sw_primary sw))] sw of
               (rc, sw1) \<Rightarrow> if rc \<noteq> 0 then (rc, sw1) else swap_finish action sw1))"

section \<open>Concrete flash contents\<close>

text \<open>
  A 128 KiB slot of two short sectors on flash that erases to \<open>0xff\<close>, with
  the given trailer bytes: magic, \<open>swap_info\<close>, \<open>copy_done\<close>, \<open>image_ok\<close>.
\<close>

definition slot_with :: "magic_bytes \<Rightarrow> uint8_t \<Rightarrow> uint8_t \<Rightarrow> uint8_t \<Rightarrow> flash_area" where
  "slot_with m si cd ok =
     \<lparr>fa_size = 131072, fa_trailer_off = 131032, fa_erased_val = 0xff,
      fa_io_ok = True, fa_header_ok = True,
      fa_magic = m, fa_swap_info = si, fa_copy_done = cd, fa_image_ok = ok,
      fa_progress = 0, fa_sectors = [[1, 2], [3, 4]], fa_writes = 0\<rparr>"

text \<open>
  A stand-in for the validator: it accepts every image but the one that has
  no sector.
\<close>

definition has_sectors :: image_validator where
  "has_sectors img = (img \<noteq> [])"

text \<open>A device with one image pair and that validator.\<close>

definition one_pair :: "flash_area \<Rightarrow> flash_area \<Rightarrow> boot_loader_state" where
  "one_pair pri sec = \<lparr>bs_slots = [(0, pri, sec)], bs_validator = has_sectors\<rparr>"














section \<open>Definitional facts\<close>

lemmas swap_type_defs = BOOT_SWAP_TYPE_NONE_def BOOT_SWAP_TYPE_TEST_def BOOT_SWAP_TYPE_PERM_def
  BOOT_SWAP_TYPE_REVERT_def BOOT_SWAP_TYPE_FAIL_def BOOT_SWAP_TYPE_PANIC_def

lemmas magic_defs = BOOT_MAGIC_GOOD_def BOOT_MAGIC_BAD_def BOOT_MAGIC_UNSET_def

lemmas flag_defs = BOOT_FLAG_SET_def BOOT_FLAG_BAD_def BOOT_FLAG_UNSET_def

lemmas error_defs = BOOT_EFLASH_def BOOT_EFILE_def BOOT_EBADIMAGE_def BOOT_EBADVECT_def
  BOOT_EBADSTATUS_def BOOT_ENOMEM_def BOOT_EBADARGS_def BOOT_EBADVERSION_def BOOT_EFLASH_SEC_def

section \<open>The nibbles of swap\_info\<close>

lemma low_nibble_mask: "(0x0F :: 'a::len word) = mask 4"
  by (simp add: mask_eq_decr_exp)

lemma BOOT_GET_SWAP_TYPE_take_bit: "BOOT_GET_SWAP_TYPE x = take_bit 4 x"
  unfolding BOOT_GET_SWAP_TYPE_def low_nibble_mask
  by (rule bit_word_eqI) (auto simp add: bit_simps)

lemma BOOT_GET_IMAGE_NUM_drop_bit: "BOOT_GET_IMAGE_NUM x = drop_bit 4 x"
  unfolding BOOT_GET_IMAGE_NUM_def
  by (rule bit_word_eqI) (auto simp add: bit_simps)

lemma packed_byte:
  "(ucast (push_bit 4 (ucast (i :: uint8_t) :: 32 word) OR (ucast (t :: uint8_t) :: 32 word)) :: uint8_t)
     = push_bit 4 i OR t"
  by (rule bit_word_eqI) (auto simp add: bit_simps)

lemma nibble_take_bit:
  fixes t :: uint8_t
  assumes "t < 0xF"
  shows "take_bit 4 t = t"
proof -
  from assms have "t < 2 ^ 4" by (simp add: word_less_nat_alt)
  then have "t AND mask 4 = t" by (rule less_mask_eq)
  then show ?thesis by (simp add: take_bit_eq_mask)
qed

lemma drop_nibble_of_take: "drop_bit 4 (take_bit 4 (t :: uint8_t)) = 0"
  by (rule bit_word_eqI) (auto simp add: bit_simps)

lemma drop_nibble_of_push: "drop_bit 4 (push_bit 4 (i :: uint8_t)) = take_bit 4 i"
  by (rule bit_word_eqI) (auto simp add: bit_simps)

lemma packed_low_nibble:
  fixes i t :: uint8_t
  assumes "t < 0xF"
  shows "take_bit 4 (push_bit 4 i OR t) = t"
  using assms by (simp add: take_bit_or take_bit_push_bit nibble_take_bit)

lemma packed_high_nibble:
  fixes i t :: uint8_t
  assumes "i < 0xF" and "t < 0xF"
  shows "drop_bit 4 (push_bit 4 i OR t) = i"
proof -
  have "drop_bit 4 t = drop_bit 4 (take_bit 4 t)"
    using assms(2) by (simp add: nibble_take_bit)
  then have "drop_bit 4 t = 0"
    by (simp only: drop_nibble_of_take)
  then show ?thesis
    using assms(1) by (simp add: drop_bit_or drop_nibble_of_push nibble_take_bit)
qed

lemma BOOT_SET_SWAP_INFO_Some:
  assumes "img < 0xF" and "ty < 0xF"
  shows "BOOT_SET_SWAP_INFO img ty = Some (push_bit 4 img OR ty)"
  using assms by (simp add: BOOT_SET_SWAP_INFO_def packed_byte)

lemma BOOT_SET_SWAP_INFO_SomeD:
  assumes "BOOT_SET_SWAP_INFO img ty = Some si"
  shows "img < 0xF \<and> ty < 0xF \<and> si = push_bit 4 img OR ty"
  using assms by (auto simp add: BOOT_SET_SWAP_INFO_def packed_byte split: if_splits)

lemma swap_info_unpacks:
  assumes "img < 0xF" and "ty < 0xF"
  shows "BOOT_GET_SWAP_TYPE (push_bit 4 img OR ty) = ty"
    and "BOOT_GET_IMAGE_NUM (push_bit 4 img OR ty) = img"
  unfolding BOOT_GET_SWAP_TYPE_take_bit BOOT_GET_IMAGE_NUM_drop_bit
  by (rule packed_low_nibble [OF assms(2)], rule packed_high_nibble [OF assms])

text \<open>
  Claim C3. For every image index and every swap type below 15, packing them
  with \<open>BOOT_SET_SWAP_INFO\<close> succeeds, and \<open>BOOT_GET_SWAP_TYPE\<close> and
  \<open>BOOT_GET_IMAGE_NUM\<close> give the swap type and the image index back.
\<close>

theorem swap_info_round_trip:
  assumes "img < 0xF" and "ty < 0xF"
  shows "\<exists>si. BOOT_SET_SWAP_INFO img ty = Some si \<and>
              BOOT_GET_SWAP_TYPE si = ty \<and> BOOT_GET_IMAGE_NUM si = img"
  using assms by (simp add: BOOT_SET_SWAP_INFO_Some swap_info_unpacks)

text \<open>
  The round trip at image 3 and swap type Test: the byte is \<open>0x32\<close>.
\<close>

theorem swap_info_round_trip_witness:
  "(3 :: uint8_t) < 0xF \<and> (2 :: uint8_t) < 0xF \<and>
   BOOT_SET_SWAP_INFO 3 2 = Some 0x32 \<and>
   BOOT_GET_SWAP_TYPE 0x32 = 2 \<and> BOOT_GET_IMAGE_NUM 0x32 = 3"
proof -
  have small: "(3 :: uint8_t) < 0xF" "(2 :: uint8_t) < 0xF" by simp_all
  have packed: "BOOT_SET_SWAP_INFO 3 2 = Some 0x32"
    by (simp add: BOOT_SET_SWAP_INFO_def)
  from swap_info_round_trip [OF small] packed small show ?thesis by simp
qed

text \<open>
  Claim C4, as stated, fails at \<open>BOOT_SWAP_TYPE_PANIC\<close>: it is \<open>0xff\<close>, the
  assertion \<open>(type) < 0xF\<close> does not hold for it, and the macro aborts.
\<close>

theorem swap_type_panic_not_packable:
  "BOOT_SWAP_TYPE_PANIC \<in> set boot_swap_types \<and> (0 :: uint8_t) < 0xF \<and>
   \<not> BOOT_SWAP_TYPE_PANIC < 0xF \<and> BOOT_SET_SWAP_INFO 0 BOOT_SWAP_TYPE_PANIC = None"
  by (simp add: boot_swap_types_def BOOT_SET_SWAP_INFO_def swap_type_defs)

text \<open>
  Claim C4, amended. Every swap type constant other than
  \<open>BOOT_SWAP_TYPE_PANIC\<close> (None, Test, Perm, Revert, Fail) passes the assertion
  \<open>(type) < 0xF\<close>, and for every image index below 15 \<open>BOOT_GET_SWAP_TYPE\<close>
  recovers it from the packed byte.
\<close>

theorem swap_types_but_panic_fit_low_nibble:
  assumes "ty \<in> set boot_swap_types" and "ty \<noteq> BOOT_SWAP_TYPE_PANIC" and "img < 0xF"
  shows "ty < 0xF \<and>
         (\<exists>si. BOOT_SET_SWAP_INFO img ty = Some si \<and> BOOT_GET_SWAP_TYPE si = ty)"
proof -
  from assms(1,2) have "ty < 0xF"
    by (auto simp add: boot_swap_types_def swap_type_defs)
  with assms(3) show ?thesis
    by (simp add: BOOT_SET_SWAP_INFO_Some swap_info_unpacks)
qed

text \<open>
  The amended claim at \<open>BOOT_SWAP_TYPE_FAIL\<close> and image 14.
\<close>

theorem swap_types_but_panic_fit_low_nibble_witness:
  "BOOT_SWAP_TYPE_FAIL < 0xF \<and> BOOT_SET_SWAP_INFO 14 BOOT_SWAP_TYPE_FAIL = Some 0xE5 \<and>
   BOOT_GET_SWAP_TYPE 0xE5 = BOOT_SWAP_TYPE_FAIL"
proof -
  have mem: "BOOT_SWAP_TYPE_FAIL \<in> set boot_swap_types"
    by (simp add: boot_swap_types_def)
  have ne: "BOOT_SWAP_TYPE_FAIL \<noteq> BOOT_SWAP_TYPE_PANIC"
    by (simp add: swap_type_defs)
  have small: "(14 :: uint8_t) < 0xF" by simp
  have packed: "BOOT_SET_SWAP_INFO 14 BOOT_SWAP_TYPE_FAIL = Some 0xE5"
    by (simp add: BOOT_SET_SWAP_INFO_def swap_type_defs)
  from swap_types_but_panic_fit_low_nibble [OF mem ne small] packed show ?thesis by simp
qed

text \<open>
  Claim C5, as stated, fails at \<open>BOOT_EFLASH\<close>: the constant is 1, which is
  not negative.
\<close>

theorem boot_eflash_not_negative:
  "BOOT_EFLASH \<in> set boot_error_codes \<and> \<not> BOOT_EFLASH < 0"
  by (simp add: boot_error_codes_def BOOT_EFLASH_def)

text \<open>
  Claim C5, amended. The nine status codes are the positive integers 1 to 9:
  each is positive, they are pairwise distinct, and none is the success code
  0.
\<close>

theorem boot_error_codes_positive_distinct:
  "boot_error_codes = [1, 2, 3, 4, 5, 6, 7, 8, 9] \<and>
   list_all (\<lambda>c. 0 < c) boot_error_codes \<and>
   distinct boot_error_codes \<and> 0 \<notin> set boot_error_codes"
  by (simp add: boot_error_codes_def error_defs)

text \<open>
  Claim C10. \<open>BOOT_SET_SWAP_INFO\<close> rejects image index 15, although a high
  nibble of 15 would be read back as 15; so the image number read from any
  byte the macro has produced lies between 0 and 14.
\<close>

theorem image_number_15_rejected:
  "BOOT_SET_SWAP_INFO 0xF ty = None \<and>
   BOOT_GET_IMAGE_NUM (push_bit 4 0xF OR ty) = 0xF \<and>
   (BOOT_SET_SWAP_INFO img ty = Some si \<longrightarrow> unat (BOOT_GET_IMAGE_NUM si) \<le> 14)"
proof (intro conjI impI)
  show "BOOT_SET_SWAP_INFO 0xF ty = None"
    by (simp add: BOOT_SET_SWAP_INFO_def)
  show "BOOT_GET_IMAGE_NUM (push_bit 4 0xF OR ty) = 0xF"
    unfolding BOOT_GET_IMAGE_NUM_drop_bit low_nibble_mask
    by (rule bit_word_eqI) (auto simp add: bit_simps dest: bit_imp_le_length)
next
  assume "BOOT_SET_SWAP_INFO img ty = Some si"
  then have parts: "img < 0xF" "ty < 0xF" "si = push_bit 4 img OR ty"
    by (simp_all add: BOOT_SET_SWAP_INFO_SomeD)
  then have "BOOT_GET_IMAGE_NUM si = img"
    by (simp add: swap_info_unpacks)
  with parts(1) show "unat (BOOT_GET_IMAGE_NUM si) \<le> 14"
    by (simp add: word_less_nat_alt)
qed

text \<open>
  Image 15 is rejected, image 14 is packed and read back within range.
\<close>

theorem image_number_15_rejected_witness:
  "BOOT_SET_SWAP_INFO 0xF 2 = None \<and> BOOT_SET_SWAP_INFO 14 2 = Some 0xE2 \<and>
   unat (BOOT_GET_IMAGE_NUM 0xE2) \<le> 14"
proof -
  have packed: "BOOT_SET_SWAP_INFO 14 2 = Some 0xE2"
    by (simp add: BOOT_SET_SWAP_INFO_def)
  from image_number_15_rejected [of 2 14 "0xE2"] packed show ?thesis by simp
qed

section \<open>Decisions\<close>

text \<open>
  What the table answers, as one chain of tests, and what the validator makes
  of it.
\<close>

lemma table_answer_eq:
  "table_answer p s =
     (if rule1 s then BOOT_SWAP_TYPE_NONE
      else if rule2 p s BOOT_SWAP_TYPE_TEST then BOOT_SWAP_TYPE_TEST
      else if rule2 p s BOOT_SWAP_TYPE_PERM then BOOT_SWAP_TYPE_PERM
      else if rule3 p then BOOT_SWAP_TYPE_REVERT
      else if rule4 p then BOOT_SWAP_TYPE_NONE
      else BOOT_SWAP_TYPE_PANIC)"
  by (simp add: table_answer_def decision_table_def rule5_def)

lemma decision_table_total: "first_match (decision_table p s) \<noteq> None"
  by (simp add: decision_table_def rule5_def)






lemma swap_decision_swap:
  assumes "table_answer p s = a"
    and "a = BOOT_SWAP_TYPE_TEST \<or> a = BOOT_SWAP_TYPE_PERM \<or> a = BOOT_SWAP_TYPE_REVERT"
  shows "swap_decision p s valid = (if valid then a else BOOT_SWAP_TYPE_FAIL)"
  using assms by (auto simp add: swap_decision_def Let_def)






lemmas rule_defs = rule1_def rule2_def rule3_def rule4_def

text \<open>
  Each of the six answers is given: None, Test, Permanent and Revert by rules 1
  to 3, Fail by rule 6 on an image that the validator rejects, Panic by rule 5.
\<close>

lemma every_answer_is_given:
  "swap_decision None None valid = BOOT_SWAP_TYPE_NONE"
  "swap_decision None
     (Some \<lparr>magic = BOOT_MAGIC_GOOD, swap_type = BOOT_SWAP_TYPE_TEST,
            copy_done = BOOT_FLAG_UNSET, image_ok = BOOT_FLAG_UNSET, image_num = 0\<rparr>) True
   = BOOT_SWAP_TYPE_TEST"
  "swap_decision None
     (Some \<lparr>magic = BOOT_MAGIC_GOOD, swap_type = BOOT_SWAP_TYPE_PERM,
            copy_done = BOOT_FLAG_UNSET, image_ok = BOOT_FLAG_UNSET, image_num = 0\<rparr>) True
   = BOOT_SWAP_TYPE_PERM"
  "swap_decision
     (Some \<lparr>magic = BOOT_MAGIC_GOOD, swap_type = BOOT_SWAP_TYPE_TEST,
            copy_done = BOOT_FLAG_SET, image_ok = BOOT_FLAG_UNSET, image_num = 0\<rparr>)
     (Some \<lparr>magic = BOOT_MAGIC_GOOD, swap_type = BOOT_SWAP_TYPE_TEST,
            copy_done = BOOT_FLAG_UNSET, image_ok = BOOT_FLAG_UNSET, image_num = 0\<rparr>) True
   = BOOT_SWAP_TYPE_REVERT"
  "swap_decision None
     (Some \<lparr>magic = BOOT_MAGIC_GOOD, swap_type = BOOT_SWAP_TYPE_TEST,
            copy_done = BOOT_FLAG_UNSET, image_ok = BOOT_FLAG_UNSET, image_num = 0\<rparr>) False
   = BOOT_SWAP_TYPE_FAIL"
  "swap_decision None
     (Some \<lparr>magic = BOOT_MAGIC_BAD, swap_type = BOOT_SWAP_TYPE_TEST,
            copy_done = BOOT_FLAG_UNSET, image_ok = BOOT_FLAG_UNSET, image_num = 0\<rparr>) valid
   = BOOT_SWAP_TYPE_PANIC"
  by (simp_all add: swap_decision_def table_answer_eq rule_defs swap_type_defs magic_defs
        flag_defs)

section \<open>Readings of the concrete slots\<close>

lemma boot_read_swap_state_slot_with:
  "boot_read_swap_state (slot_with m si cd ok) =
     Inr \<lparr>magic = boot_magic_decode m, swap_type = BOOT_GET_SWAP_TYPE si,
          copy_done = boot_flag_decode 0xff cd, image_ok = boot_flag_decode 0xff ok,
          image_num = BOOT_GET_IMAGE_NUM si\<rparr>"
  by (simp add: boot_read_swap_state_def slot_with_def)


lemma swap_type_of_byte:
  "BOOT_GET_SWAP_TYPE 0x02 = BOOT_SWAP_TYPE_TEST"
  "BOOT_GET_SWAP_TYPE 0x04 = BOOT_SWAP_TYPE_REVERT"
  "BOOT_GET_SWAP_TYPE 0x09 = 9"
  "BOOT_GET_IMAGE_NUM 0x02 = 0"
  "BOOT_GET_IMAGE_NUM 0x04 = 0"
  "BOOT_GET_IMAGE_NUM 0x09 = 0"
  by (simp_all add: BOOT_GET_SWAP_TYPE_def BOOT_GET_IMAGE_NUM_def swap_type_defs)

lemma flag_of_byte:
  "boot_flag_decode 0xff 0xff = BOOT_FLAG_UNSET"
  "boot_flag_decode 0xff 0x01 = BOOT_FLAG_SET"
  by (simp_all add: boot_flag_decode_def flag_defs)


section \<open>Requests\<close>

lemma boot_set_next_confirmed_noop:
  assumes "boot_read_swap_state fa = Inr t" and "magic t \<noteq> BOOT_MAGIC_BAD"
    and "image_ok t = BOOT_FLAG_SET"
  shows "boot_set_next fa True confirm = (0, fa)"
  using assms by (simp add: boot_set_next_def confirm_trailer_def)

lemma boot_set_next_bad_magic:
  assumes "boot_read_swap_state fa = Inr t" and "magic t = BOOT_MAGIC_BAD"
  shows "boot_set_next fa active confirm = (BOOT_EBADSTATUS, fa)"
  using assms by (simp add: boot_set_next_def)

lemma bs_slots_update_same:
  assumes "map_of (bs_slots st) k = Some v"
  shows "st\<lparr>bs_slots := AList.update k v (bs_slots st)\<rparr> = st"
  using assms by (simp add: update_triv)

text \<open>
  Claim C6, amended. For every image index whose primary trailer has a magic
  that is not Bad and has \<open>image_ok\<close> Set, \<open>boot_set_confirmed_multi\<close> returns
  0 and leaves the whole state, hence the trailer, unchanged.
\<close>

theorem boot_set_confirmed_multi_idempotent:
  assumes slots: "map_of (bs_slots st) image_index = Some (pri, sec)"
    and rd: "boot_read_swap_state pri = Inr t"
    and not_bad: "magic t \<noteq> BOOT_MAGIC_BAD"
    and confirmed: "image_ok t = BOOT_FLAG_SET"
  shows "boot_set_confirmed_multi st image_index = (0, st)"
proof -
  have "boot_set_next pri True True = (0, pri)"
    using rd not_bad confirmed by (rule boot_set_next_confirmed_noop)
  with slots show ?thesis
    by (simp add: boot_set_confirmed_multi_def bs_slots_update_same)
qed

text \<open>
  Confirming a confirmed image with a Good trailer changes nothing.
\<close>

theorem boot_set_confirmed_multi_idempotent_witness:
  "boot_set_confirmed_multi
     (one_pair (slot_with Magic_Sentinel 0x02 0x01 0x01) (slot_with Magic_Erased 0xff 0xff 0xff)) 0
   = (0, one_pair (slot_with Magic_Sentinel 0x02 0x01 0x01) (slot_with Magic_Erased 0xff 0xff 0xff))"
proof -
  let ?pri = "slot_with Magic_Sentinel 0x02 0x01 0x01"
  let ?sec = "slot_with Magic_Erased 0xff 0xff 0xff"
  let ?t = "\<lparr>magic = BOOT_MAGIC_GOOD, swap_type = BOOT_SWAP_TYPE_TEST,
             copy_done = BOOT_FLAG_SET, image_ok = BOOT_FLAG_SET, image_num = 0\<rparr>"
  have slots: "map_of (bs_slots (one_pair ?pri ?sec)) 0 = Some (?pri, ?sec)"
    by (simp add: one_pair_def)
  have rd: "boot_read_swap_state ?pri = Inr ?t"
    by (simp add: boot_read_swap_state_slot_with swap_type_of_byte flag_of_byte)
  have not_bad: "magic ?t \<noteq> BOOT_MAGIC_BAD" and confirmed: "image_ok ?t = BOOT_FLAG_SET"
    by (simp_all add: magic_defs)
  show ?thesis
    by (rule boot_set_confirmed_multi_idempotent [OF slots rd not_bad confirmed])
qed

text \<open>
  Claim C6, as stated, fails on a primary trailer whose magic is Bad: its
  \<open>image_ok\<close> decodes to Set, and the call returns \<open>BOOT_EBADSTATUS\<close>, not 0.
\<close>

theorem boot_set_confirmed_multi_bad_magic_fails:
  "boot_read_swap_state (slot_with Magic_Other 0x02 0x01 0x01) =
     Inr \<lparr>magic = BOOT_MAGIC_BAD, swap_type = BOOT_SWAP_TYPE_TEST,
          copy_done = BOOT_FLAG_SET, image_ok = BOOT_FLAG_SET, image_num = 0\<rparr> \<and>
   fst (boot_set_confirmed_multi
          (one_pair (slot_with Magic_Other 0x02 0x01 0x01) (slot_with Magic_Erased 0xff 0xff 0xff)) 0)
     = BOOT_EBADSTATUS \<and>
   BOOT_EBADSTATUS \<noteq> 0"
proof -
  let ?pri = "slot_with Magic_Other 0x02 0x01 0x01"
  let ?sec = "slot_with Magic_Erased 0xff 0xff 0xff"
  let ?t = "\<lparr>magic = BOOT_MAGIC_BAD, swap_type = BOOT_SWAP_TYPE_TEST,
             copy_done = BOOT_FLAG_SET, image_ok = BOOT_FLAG_SET, image_num = 0\<rparr>"
  have rd: "boot_read_swap_state ?pri = Inr ?t"
    by (simp add: boot_read_swap_state_slot_with swap_type_of_byte flag_of_byte)
  then have "boot_set_next ?pri True True = (BOOT_EBADSTATUS, ?pri)"
    by (rule boot_set_next_bad_magic) simp
  then have "fst (boot_set_confirmed_multi (one_pair ?pri ?sec) 0) = BOOT_EBADSTATUS"
    by (simp add: boot_set_confirmed_multi_def one_pair_def)
  with rd show ?thesis by (simp add: BOOT_EBADSTATUS_def)
qed

text \<open>
  Claim C7. With \<open>active\<close> true, \<open>boot_set_next\<close> returns the same status and
  the same flash area for every value of \<open>confirm\<close> as for \<open>confirm\<close> true.
\<close>

theorem boot_set_next_active_forces_confirm:
  "boot_set_next fa True confirm = boot_set_next fa True True"
  by (simp add: boot_set_next_def)

text \<open>
  On a running, unconfirmed image the call with \<open>confirm\<close> false writes
  \<open>image_ok\<close>, as the call with \<open>confirm\<close> true does.
\<close>

theorem boot_set_next_active_forces_confirm_witness:
  "boot_set_next (slot_with Magic_Sentinel 0x02 0x01 0xff) True False =
     boot_set_next (slot_with Magic_Sentinel 0x02 0x01 0xff) True True \<and>
   boot_set_next (slot_with Magic_Sentinel 0x02 0x01 0xff) True True =
     (0, (slot_with Magic_Sentinel 0x02 0x01 0xff)\<lparr>fa_image_ok := BOOT_FLAG_SET, fa_writes := 1\<rparr>)"
proof -
  let ?fa = "slot_with Magic_Sentinel 0x02 0x01 0xff"
  have "boot_set_next ?fa True True = (0, ?fa\<lparr>fa_image_ok := BOOT_FLAG_SET, fa_writes := 1\<rparr>)"
    by (simp add: boot_set_next_def boot_read_swap_state_slot_with flag_of_byte magic_defs
          flag_defs confirm_trailer_def boot_write_image_ok_def flash_write_def)
       (simp add: slot_with_def)
  with boot_set_next_active_forces_confirm [of ?fa False] show ?thesis by simp
qed

section \<open>Swaps\<close>

text \<open>
  Claim C2. When the primary trailer shows \<open>copy_done\<close> Set, the executor
  returns 0 and the three flash areas, their write counters included, are
  what they were.
\<close>

theorem swap_executor_noop_when_copy_done:
  assumes rd: "boot_read_swap_state (sw_primary sw) = Inr t"
    and copied: "copy_done t = BOOT_FLAG_SET"
  shows "swap_executor validator action sw = (0, sw)"
  using assms by (simp add: swap_executor_def)

text \<open>
  A pair whose permanent swap has completed is left alone.
\<close>

theorem swap_executor_noop_when_copy_done_witness:
  "swap_executor has_sectors BOOT_SWAP_TYPE_PERM
     \<lparr>sw_primary = slot_with Magic_Sentinel 0x03 0x01 0xff,
      sw_secondary = slot_with Magic_Erased 0xff 0xff 0xff,
      sw_scratch = slot_with Magic_Erased 0xff 0xff 0xff\<rparr>
   = (0, \<lparr>sw_primary = slot_with Magic_Sentinel 0x03 0x01 0xff,
          sw_secondary = slot_with Magic_Erased 0xff 0xff 0xff,
          sw_scratch = slot_with Magic_Erased 0xff 0xff 0xff\<rparr>)"
proof -
  let ?sw = "\<lparr>sw_primary = slot_with Magic_Sentinel 0x03 0x01 0xff,
      sw_secondary = slot_with Magic_Erased 0xff 0xff 0xff,
      sw_scratch = slot_with Magic_Erased 0xff 0xff 0xff\<rparr>"
  let ?t = "\<lparr>magic = BOOT_MAGIC_GOOD, swap_type = BOOT_GET_SWAP_TYPE 0x03,
             copy_done = BOOT_FLAG_SET, image_ok = BOOT_FLAG_UNSET,
             image_num = BOOT_GET_IMAGE_NUM 0x03\<rparr>"
  have rd: "boot_read_swap_state (sw_primary ?sw) = Inr ?t"
    by (simp add: boot_read_swap_state_slot_with flag_of_byte)
  have copied: "copy_done ?t = BOOT_FLAG_SET" by simp
  show ?thesis
    by (rule swap_executor_noop_when_copy_done [OF rd copied])
qed


text \<open>
  A run that completes leaves \<open>copy_done\<close> Set, so that the next call is the
  no-op above: the erased value of the primary slot is what it was, and the
  last write of the run is that of \<open>copy_done\<close>.
\<close>

lemma swap_sector_erased_val:
  "fa_erased_val (sw_primary (snd (swap_sector n sw))) = fa_erased_val (sw_primary sw)"
  by (auto simp add: swap_sector_def copy_sector_def flash_write_def split: prod.splits if_splits)

lemma swap_sectors_erased_val:
  "fa_erased_val (sw_primary (snd (swap_sectors ns sw))) = fa_erased_val (sw_primary sw)"
proof (induction ns arbitrary: sw)
  case Nil
  then show ?case by simp
next
  case (Cons n ns)
  show ?case
  proof (cases "swap_sector n sw")
    case (Pair rc sw1)
    with Cons.IH [of sw1] swap_sector_erased_val [of n sw] show ?thesis
      by simp
  qed
qed

lemma swap_finish_copy_done:
  assumes "swap_finish action sw = (0, sw')"
  shows "fa_io_ok (sw_primary sw') \<and> fa_copy_done (sw_primary sw') = BOOT_FLAG_SET \<and>
         fa_erased_val (sw_primary sw') = fa_erased_val (sw_primary sw)"
  using assms
  by (auto simp add: swap_finish_def boot_write_magic_def boot_write_swap_info_def
        boot_write_copy_done_def flash_write_def error_defs
        split: prod.splits if_splits option.splits)

lemma swap_executor_completed:
  assumes run: "swap_executor validator action sw = (0, sw')"
    and erased: "fa_erased_val (sw_primary sw) \<noteq> BOOT_FLAG_SET"
  shows "\<exists>t. boot_read_swap_state (sw_primary sw') = Inr t \<and> copy_done t = BOOT_FLAG_SET"
proof (cases "boot_read_swap_state (sw_primary sw)")
  case (Inl rc)
  then have "rc = BOOT_EFLASH"
    by (simp add: boot_read_swap_state_def split: if_splits)
  with Inl run show ?thesis
    by (simp add: swap_executor_def BOOT_EFLASH_def)
next
  case (Inr t)
  show ?thesis
  proof (cases "copy_done t = BOOT_FLAG_SET")
    case True
    with Inr run show ?thesis by (simp add: swap_executor_def)
  next
    case False
    let ?ns = "[fa_progress (sw_primary sw) ..< length (fa_sectors (sw_primary sw))]"
    obtain rc sw1 where sectors: "swap_sectors ?ns sw = (rc, sw1)"
      by (cases "swap_sectors ?ns sw")
    from Inr False run sectors have fin: "swap_finish action sw1 = (0, sw')"
      by (simp add: swap_executor_def BOOT_EBADIMAGE_def split: if_splits)
    from swap_sectors_erased_val [of ?ns sw] sectors
    have "fa_erased_val (sw_primary sw1) = fa_erased_val (sw_primary sw)" by simp
    with swap_finish_copy_done [OF fin] erased
    have "fa_io_ok (sw_primary sw')" "fa_copy_done (sw_primary sw') = BOOT_FLAG_SET"
      "fa_erased_val (sw_primary sw') \<noteq> BOOT_FLAG_SET"
      by simp_all
    then show ?thesis
      by (simp add: boot_read_swap_state_def boot_flag_decode_def)
  qed
qed

lemma swap_executor_twice:
  assumes run: "swap_executor validator action sw = (0, sw')"
    and erased: "fa_erased_val (sw_primary sw) \<noteq> BOOT_FLAG_SET"
  shows "swap_executor validator' action' sw' = (0, sw')"
proof -
  from swap_executor_completed [OF run erased] obtain t
    where "boot_read_swap_state (sw_primary sw') = Inr t" "copy_done t = BOOT_FLAG_SET"
    by blast
  then show ?thesis by (simp add: swap_executor_def)
qed

text \<open>
  A permanent swap of two sectors, from the start: three writes to each
  sector pair and one marker per triple, then the trailer.
\<close>

lemma swap_executor_permanent_run:
  "swap_executor has_sectors BOOT_SWAP_TYPE_PERM
     \<lparr>sw_primary = slot_with Magic_Erased 0xff 0xff 0xff,
      sw_secondary = (slot_with Magic_Sentinel 0x03 0xff 0xff)\<lparr>fa_sectors := [[5, 6], [7, 8]]\<rparr>,
      sw_scratch = (slot_with Magic_Erased 0xff 0xff 0xff)\<lparr>fa_sectors := [[0, 0]]\<rparr>\<rparr>
   = (0,
     \<lparr>sw_primary = (slot_with Magic_Sentinel 0x03 0x01 0xff)
        \<lparr>fa_sectors := [[5, 6], [7, 8]], fa_progress := 2, fa_writes := 7\<rparr>,
      sw_secondary = (slot_with Magic_Erased 0x03 0xff 0xff)
        \<lparr>fa_sectors := [[1, 2], [3, 4]], fa_writes := 3\<rparr>,
      sw_scratch = (slot_with Magic_Erased 0xff 0xff 0xff)
        \<lparr>fa_sectors := [[3, 4]], fa_writes := 2\<rparr>\<rparr>)"
  by (simp add: swap_executor_def boot_read_swap_state_slot_with flag_of_byte flag_defs
        upt_rec [of 0] upt_rec [of 1] upt_rec [of 2])
     (simp add: slot_with_def swap_sector_def copy_sector_def flash_write_def swap_finish_def
        boot_write_magic_def boot_write_swap_info_def
        boot_write_copy_done_def BOOT_SET_SWAP_INFO_def swap_type_defs flag_defs boot_read_swap_state_def
        boot_flag_decode_def has_sectors_def)

section \<open>Test upgrades and reverts\<close>





























section \<open>Undefined swap types\<close>








text \<open>
  Claim C9. \<open>boot_swap_type\<close> returns what \<open>boot_swap_type_multi\<close> returns for
  image pair 0, in every state.
\<close>

theorem boot_swap_type_is_multi_0:
  "boot_swap_type st = boot_swap_type_multi st 0"
  by (simp add: boot_swap_type_def)

end
